theory Spec2Isabelle
  imports Main "HOL-Library.Sublist" "HOL-Library.Word"
begin

section \<open>Python values\<close>

text \<open>
  Exceptions are values. Every class below derives from Python's \<open>Exception\<close>, so an
  \<open>except Exception\<close> clause catches each of them. \<open>GithubException\<close> stands for
  whatever the client library or the network stack raises and carries the text that
  \<open>str(e)\<close> gives; \<open>HTTPException\<close> is the web framework's, with its status code and
  detail.
\<close>

datatype exn =
    RuntimeError string
  | AttributeError string
  | ValueError string
  | HTTPException nat string
  | GithubException string

definition sq :: string where
  "sq = [CHR 0x27]"

fun str_nat :: "nat \<Rightarrow> string" where
  "str_nat n =
     (if n < 10 then [''0123456789'' ! n]
      else str_nat (n div 10) @ [''0123456789'' ! (n mod 10)])"

declare str_nat.simps [simp del]

definition str_int :: "int \<Rightarrow> string" where
  "str_int i = (if i < 0 then ''-'' @ str_nat (nat (- i)) else str_nat (nat i))"

text \<open>
  \<open>str(e)\<close>, as an f-string renders a caught exception: the message for the built-in
  classes, and status code, colon and detail for the web framework's exception.
\<close>

fun str_exn :: "exn \<Rightarrow> string" where
  "str_exn (RuntimeError m) = m"
| "str_exn (AttributeError m) = m"
| "str_exn (ValueError m) = m"
| "str_exn (HTTPException status_code detail) = str_nat status_code @ '': '' @ detail"
| "str_exn (GithubException m) = m"

text \<open>An optional string in an f-string: \<open>None\<close> prints as the word.\<close>

definition str_opt :: "string option \<Rightarrow> string" where
  "str_opt v = (case v of None \<Rightarrow> ''None'' | Some s \<Rightarrow> s)"

text \<open>Truth value of a \<open>str | None\<close>: \<open>None\<close> and the empty string are false.\<close>

definition truthy :: "string option \<Rightarrow> bool" where
  "truthy v = (case v of None \<Rightarrow> False | Some s \<Rightarrow> s \<noteq> [])"

text \<open>\<open>sep.join(xs)\<close>.\<close>

fun join :: "string \<Rightarrow> string list \<Rightarrow> string" where
  "join sep [] = []"
| "join sep [x] = x"
| "join sep (x # y # ys) = x @ sep @ join sep (y # ys)"

text \<open>The dictionaries the HTTP handlers return.\<close>

datatype json = JString string | JArray "json list" | JObject "(string \<times> json) list"

section \<open>The remote platform as the client library shows it\<close>

datatype github = Github string

datatype authenticated_user = AuthenticatedUser github

record repository =
  full_name :: string
  default_branch :: string

record git_tree_element =
  path :: string
  type :: string

record content_file =
  path_cf :: string
  sha :: string
  decoded_content :: "exn + string"

datatype contents = ContentFile content_file | ContentFiles "content_file list"

record branch =
  commit_sha :: string

record pull_request =
  number :: int
  html_url :: string

record issue =
  issue_title :: string
  issue_body :: "string option"

text \<open>
  One entry per library method the program calls, with the arguments it passes. The
  log of these entries is the only trace of remote activity the model keeps.
\<close>

datatype call =
    GetUser github
  | GetRepos authenticated_user
  | GetRepo github string
  | GetGitTree repository string bool
  | GetContents repository string string
  | UpdateFile repository string string string string string
  | CreateFile repository string string string string
  | DeleteFile repository string string string string
  | GetBranch repository string
  | CreateGitRef repository string string
  | CreatePull repository string string string string
  | GetIssue repository int
  | PostAccessToken string

text \<open>
  What the platform answers to each call: a parameter of every operation below. An
  answer is a raised exception (\<open>Inl\<close>) or the returned object (\<open>Inr\<close>).
  \<open>get_repos\<close> is the outcome of iterating the paginated listing to its end;
  \<open>post_access_token\<close> is the decoded JSON object of the OAuth token exchange for a
  code (client id and secret are fixed configuration).
\<close>

record remote =
  get_user :: "github \<Rightarrow> exn + authenticated_user"
  get_repos :: "authenticated_user \<Rightarrow> exn + repository list"
  get_repo :: "github \<Rightarrow> string \<Rightarrow> exn + repository"
  get_git_tree :: "repository \<Rightarrow> string \<Rightarrow> bool \<Rightarrow> exn + git_tree_element list"
  get_contents :: "repository \<Rightarrow> string \<Rightarrow> string \<Rightarrow> exn + contents"
  update_file :: "repository \<Rightarrow> string \<Rightarrow> string \<Rightarrow> string \<Rightarrow> string \<Rightarrow> string \<Rightarrow> exn + unit"
  create_file :: "repository \<Rightarrow> string \<Rightarrow> string \<Rightarrow> string \<Rightarrow> string \<Rightarrow> exn + unit"
  delete_file_remote :: "repository \<Rightarrow> string \<Rightarrow> string \<Rightarrow> string \<Rightarrow> string \<Rightarrow> exn + unit"
  get_branch :: "repository \<Rightarrow> string \<Rightarrow> exn + branch"
  create_git_ref :: "repository \<Rightarrow> string \<Rightarrow> string \<Rightarrow> exn + unit"
  create_pull :: "repository \<Rightarrow> string \<Rightarrow> string \<Rightarrow> string \<Rightarrow> string \<Rightarrow> exn + pull_request"
  get_issue :: "repository \<Rightarrow> int \<Rightarrow> exn + issue"
  post_access_token :: "string \<Rightarrow> exn + (string \<rightharpoonup> string)"

section \<open>Process state and control flow\<close>

text \<open>
  The module globals the program mutates: the \<open>GITHUB_PAT\<close> entry of
  \<open>os.environ\<close>, \<open>github_client\<close> of the tool module and \<open>user_sessions\<close> of the API
  module (a stored value may be \<open>None\<close>). \<open>calls\<close> is the log of remote calls issued
  so far, oldest first. The diagnostic \<open>print\<close> lines of the tools are left out.
\<close>

record process =
  GITHUB_PAT :: "string option"
  github_client :: "github option"
  user_sessions :: "string \<rightharpoonup> string option"
  calls :: "call list"

type_synonym 'a prog = "process \<Rightarrow> (exn + 'a) \<times> process"

definition ret :: "'a \<Rightarrow> 'a prog" where
  "ret v = (\<lambda>s. (Inr v, s))"

definition raise :: "exn \<Rightarrow> 'a prog" where
  "raise e = (\<lambda>s. (Inl e, s))"

definition seq :: "'a prog \<Rightarrow> ('a \<Rightarrow> 'b prog) \<Rightarrow> 'b prog" where
  "seq m f = (\<lambda>s. case m s of (Inl e, s') \<Rightarrow> (Inl e, s') | (Inr v, s') \<Rightarrow> f v s')"

text \<open>\<open>try: m  except Exception as e: h e\<close>.\<close>

definition try_except :: "'a prog \<Rightarrow> (exn \<Rightarrow> 'a prog) \<Rightarrow> 'a prog" where
  "try_except m h = (\<lambda>s. case m s of (Inl e, s') \<Rightarrow> h e s' | (Inr v, s') \<Rightarrow> (Inr v, s'))"

definition remote_call :: "call \<Rightarrow> exn + 'a \<Rightarrow> 'a prog" where
  "remote_call c answer = (\<lambda>s. (answer, s\<lparr>calls := calls s @ [c]\<rparr>))"

text \<open>A library method call: logged, then answered by the platform.\<close>

definition client_get_user :: "remote \<Rightarrow> github \<Rightarrow> authenticated_user prog" where
  "client_get_user R client = remote_call (GetUser client) (get_user R client)"

definition user_get_repos :: "remote \<Rightarrow> authenticated_user \<Rightarrow> repository list prog" where
  "user_get_repos R u = remote_call (GetRepos u) (get_repos R u)"

definition client_get_repo :: "remote \<Rightarrow> github \<Rightarrow> string \<Rightarrow> repository prog" where
  "client_get_repo R client repo_name =
     remote_call (GetRepo client repo_name) (get_repo R client repo_name)"

definition repo_get_git_tree ::
  "remote \<Rightarrow> repository \<Rightarrow> string \<Rightarrow> bool \<Rightarrow> git_tree_element list prog" where
  "repo_get_git_tree R repo tree_sha recursive =
     remote_call (GetGitTree repo tree_sha recursive) (get_git_tree R repo tree_sha recursive)"

definition repo_get_contents :: "remote \<Rightarrow> repository \<Rightarrow> string \<Rightarrow> string \<Rightarrow> contents prog" where
  "repo_get_contents R repo file_path ref =
     remote_call (GetContents repo file_path ref) (get_contents R repo file_path ref)"

definition repo_update_file ::
  "remote \<Rightarrow> repository \<Rightarrow> string \<Rightarrow> string \<Rightarrow> string \<Rightarrow> string \<Rightarrow> string \<Rightarrow> unit prog" where
  "repo_update_file R repo p message content blob_sha br =
     remote_call (UpdateFile repo p message content blob_sha br)
       (update_file R repo p message content blob_sha br)"

definition repo_create_file ::
  "remote \<Rightarrow> repository \<Rightarrow> string \<Rightarrow> string \<Rightarrow> string \<Rightarrow> string \<Rightarrow> unit prog" where
  "repo_create_file R repo p message content br =
     remote_call (CreateFile repo p message content br) (create_file R repo p message content br)"

definition repo_delete_file ::
  "remote \<Rightarrow> repository \<Rightarrow> string \<Rightarrow> string \<Rightarrow> string \<Rightarrow> string \<Rightarrow> unit prog" where
  "repo_delete_file R repo p message blob_sha br =
     remote_call (DeleteFile repo p message blob_sha br)
       (delete_file_remote R repo p message blob_sha br)"

definition repo_get_branch :: "remote \<Rightarrow> repository \<Rightarrow> string \<Rightarrow> branch prog" where
  "repo_get_branch R repo br = remote_call (GetBranch repo br) (get_branch R repo br)"

definition repo_create_git_ref :: "remote \<Rightarrow> repository \<Rightarrow> string \<Rightarrow> string \<Rightarrow> unit prog" where
  "repo_create_git_ref R repo ref commit =
     remote_call (CreateGitRef repo ref commit) (create_git_ref R repo ref commit)"

definition repo_create_pull ::
  "remote \<Rightarrow> repository \<Rightarrow> string \<Rightarrow> string \<Rightarrow> string \<Rightarrow> string \<Rightarrow> pull_request prog" where
  "repo_create_pull R repo title body head base =
     remote_call (CreatePull repo title body head base) (create_pull R repo title body head base)"

definition repo_get_issue :: "remote \<Rightarrow> repository \<Rightarrow> int \<Rightarrow> issue prog" where
  "repo_get_issue R repo issue_number =
     remote_call (GetIssue repo issue_number) (get_issue R repo issue_number)"

text \<open>
  Attribute reads on the value \<open>get_contents\<close> returned. For a directory the library
  returns a list, which has none of these attributes.
\<close>

definition no_attribute :: "string \<Rightarrow> exn" where
  "no_attribute a = AttributeError (sq @ ''list'' @ sq @ '' object has no attribute '' @ sq @ a @ sq)"

definition attr_path :: "contents \<Rightarrow> string prog" where
  "attr_path c = (case c of ContentFile f \<Rightarrow> ret (path_cf f) | ContentFiles fs \<Rightarrow> raise (no_attribute ''path''))"

definition attr_sha :: "contents \<Rightarrow> string prog" where
  "attr_sha c = (case c of ContentFile f \<Rightarrow> ret (sha f) | ContentFiles fs \<Rightarrow> raise (no_attribute ''sha''))"

definition attr_decoded :: "contents \<Rightarrow> string prog" where
  "attr_decoded c =
     (case c of
        ContentFile f \<Rightarrow> (case decoded_content f of Inl e \<Rightarrow> raise e | Inr text \<Rightarrow> ret text)
      | ContentFiles fs \<Rightarrow> raise (no_attribute ''decoded_content''))"

section \<open>github_tools.py\<close>

subsection \<open>The process-wide client\<close>

definition init_client_from_env :: "process \<Rightarrow> process" where
  "init_client_from_env s =
     (case GITHUB_PAT s of
        None \<Rightarrow> s
      | Some token \<Rightarrow> if token \<noteq> [] then s\<lparr>github_client := Some (Github token)\<rparr> else s)"

text \<open>
  The assignment to \<open>os.environ\<close> raises \<open>ValueError\<close> for a value with a NUL
  character, before the client is replaced, so such a token changes nothing.
\<close>

definition set_github_token :: "string option \<Rightarrow> unit prog" where
  "set_github_token token =
     (\<lambda>s. case token of
            None \<Rightarrow> (Inr (), s\<lparr>GITHUB_PAT := None, github_client := None\<rparr>)
          | Some t \<Rightarrow>
              if t \<noteq> [] then
                if CHR 0x00 \<in> set t then (Inl (ValueError ''embedded null byte''), s)
                else (Inr (), s\<lparr>GITHUB_PAT := Some t, github_client := Some (Github t)\<rparr>)
              else (Inr (), s\<lparr>GITHUB_PAT := None, github_client := None\<rparr>))"

definition not_configured :: string where
  "not_configured = ''GitHub token not configured. Please set a token to continue.''"

definition ensure_client :: "github prog" where
  "ensure_client =
     (\<lambda>s. let s1 = (if github_client s = None then init_client_from_env s else s)
          in case github_client s1 of
               None \<Rightarrow> (Inl (RuntimeError not_configured), s1)
             | Some client \<Rightarrow> (Inr client, s1))"

subsection \<open>The tools\<close>

definition list_my_repositories :: "remote \<Rightarrow> string list prog" where
  "list_my_repositories R =
     try_except
       (seq ensure_client (\<lambda>client.
        seq (client_get_user R client) (\<lambda>u.
        seq (user_get_repos R u) (\<lambda>repos.
        ret (map full_name repos)))))
       (\<lambda>e. ret [''Error listing repositories: '' @ str_exn e])"

text \<open>In the source the separator is written \<open>"\\n"\<close>: a backslash and the letter n.\<close>

definition files_separator :: string where
  "files_separator = [CHR 0x5C, CHR ''n'']"

definition list_repository_files :: "remote \<Rightarrow> string \<Rightarrow> string prog" where
  "list_repository_files R repo_name =
     try_except
       (seq ensure_client (\<lambda>client.
        seq (client_get_repo R client repo_name) (\<lambda>repo.
        seq (repo_get_git_tree R repo (default_branch repo) True) (\<lambda>tree.
        ret (join files_separator [path element. element \<leftarrow> tree, type element = ''blob''])))))
       (\<lambda>e. ret (''Error listing files: '' @ str_exn e))"

definition read_file :: "remote \<Rightarrow> string \<Rightarrow> string \<Rightarrow> string prog" where
  "read_file R repo_name file_path =
     try_except
       (seq ensure_client (\<lambda>client.
        seq (client_get_repo R client repo_name) (\<lambda>repo.
        seq (repo_get_contents R repo file_path (default_branch repo)) (\<lambda>file_content.
        attr_decoded file_content))))
       (\<lambda>e. ret (''Error reading file: '' @ str_exn e))"

definition create_or_update_file ::
  "remote \<Rightarrow> string \<Rightarrow> string \<Rightarrow> string \<Rightarrow> string \<Rightarrow> string prog" where
  "create_or_update_file R repo_name file_path content commit_message =
     try_except
       (seq ensure_client (\<lambda>client.
        seq (client_get_repo R client repo_name) (\<lambda>repo.
        try_except
          (seq (repo_get_contents R repo file_path (default_branch repo)) (\<lambda>existing_file.
           seq (attr_path existing_file) (\<lambda>existing_path.
           seq (attr_sha existing_file) (\<lambda>existing_sha.
           seq (repo_update_file R repo existing_path commit_message content existing_sha
                  (default_branch repo)) (\<lambda>_.
           ret (''Successfully updated file '' @ sq @ file_path @ sq @ ''.''))))))
          (\<lambda>_.
           seq (repo_create_file R repo file_path commit_message content (default_branch repo)) (\<lambda>_.
           ret (''Successfully created file '' @ sq @ file_path @ sq @ ''.''))))))
       (\<lambda>e. ret (''Error creating or updating file: '' @ str_exn e))"

definition delete_file :: "remote \<Rightarrow> string \<Rightarrow> string \<Rightarrow> string \<Rightarrow> string prog" where
  "delete_file R repo_name file_path commit_message =
     try_except
       (seq ensure_client (\<lambda>client.
        seq (client_get_repo R client repo_name) (\<lambda>repo.
        seq (repo_get_contents R repo file_path (default_branch repo)) (\<lambda>file.
        seq (attr_path file) (\<lambda>p.
        seq (attr_sha file) (\<lambda>blob_sha.
        seq (repo_delete_file R repo p commit_message blob_sha (default_branch repo)) (\<lambda>_.
        ret (''Successfully deleted file '' @ sq @ file_path @ sq @ ''.''))))))))
       (\<lambda>e. ret (''Error deleting file: '' @ str_exn e))"

definition create_branch :: "remote \<Rightarrow> string \<Rightarrow> string \<Rightarrow> string prog" where
  "create_branch R repo_name branch_name =
     try_except
       (seq ensure_client (\<lambda>client.
        seq (client_get_repo R client repo_name) (\<lambda>repo.
        seq (repo_get_branch R repo (default_branch repo)) (\<lambda>source_branch.
        seq (repo_create_git_ref R repo (''refs/heads/'' @ branch_name) (commit_sha source_branch)) (\<lambda>_.
        ret (''Successfully created branch '' @ sq @ branch_name @ sq @ ''.''))))))
       (\<lambda>e. ret (''Error creating branch: '' @ str_exn e))"

definition create_pull_request ::
  "remote \<Rightarrow> string \<Rightarrow> string \<Rightarrow> string \<Rightarrow> string \<Rightarrow> string prog" where
  "create_pull_request R repo_name title body head_branch =
     try_except
       (seq ensure_client (\<lambda>client.
        seq (client_get_repo R client repo_name) (\<lambda>repo.
        seq (repo_create_pull R repo title body head_branch (default_branch repo)) (\<lambda>pr.
        ret (''Successfully created Pull Request #'' @ str_int (number pr) @ '': '' @ html_url pr)))))
       (\<lambda>e. ret (''Error creating pull request: '' @ str_exn e))"

definition get_issue_details :: "remote \<Rightarrow> string \<Rightarrow> int \<Rightarrow> string prog" where
  "get_issue_details R repo_name issue_number =
     try_except
       (seq ensure_client (\<lambda>client.
        seq (client_get_repo R client repo_name) (\<lambda>repo.
        seq (repo_get_issue R repo issue_number) (\<lambda>i.
        ret (''Issue Title: '' @ issue_title i @ files_separator @ ''Issue Body: ''
             @ str_opt (issue_body i))))))
       (\<lambda>e. ret (''Error getting issue details: '' @ str_exn e))"

section \<open>api.py\<close>

text \<open>\<open>d.get(k)\<close> on a dictionary whose values may be \<open>None\<close>.\<close>

definition dict_get :: "('k \<rightharpoonup> 'v option) \<Rightarrow> 'k \<Rightarrow> 'v option" where
  "dict_get d k = (case d k of None \<Rightarrow> None | Some v \<Rightarrow> v)"

definition get_github_client :: "string \<Rightarrow> github prog" where
  "get_github_client session_id =
     (\<lambda>s. case dict_get (user_sessions s) session_id of
            None \<Rightarrow> (Inl (HTTPException 401 ''User not authenticated.''), s)
          | Some access_token \<Rightarrow>
              if access_token = [] then (Inl (HTTPException 401 ''User not authenticated.''), s)
              else (Inr (Github access_token), s))"

text \<open>\<open>bytes.hex()\<close>: two lower-case hexadecimal digits per byte.\<close>

definition hex :: "8 word list \<Rightarrow> string" where
  "hex bs =
     concat (map (\<lambda>b. [''0123456789abcdef'' ! (unat b div 16), ''0123456789abcdef'' ! (unat b mod 16)]) bs)"

datatype redirect = RedirectResponse string

text \<open>The assignment \<open>user_sessions[session_id] = access_token\<close>.\<close>

definition store_session :: "string \<Rightarrow> string option \<Rightarrow> process \<Rightarrow> process" where
  "store_session session_id access_token s =
     s\<lparr>user_sessions := (user_sessions s)(session_id \<mapsto> access_token)\<rparr>"

text \<open>
  The OAuth callback. \<open>urandom\<close> is the draw of \<open>os.urandom(24)\<close>. The handler reads
  the \<open>access_token\<close> entry of the exchange's JSON object with \<open>get\<close>, so a missing
  entry is stored as \<open>None\<close>.
\<close>

definition github_callback :: "remote \<Rightarrow> 8 word list \<Rightarrow> string \<Rightarrow> redirect prog" where
  "github_callback R urandom code =
     seq (remote_call (PostAccessToken code) (post_access_token R code)) (\<lambda>response_json.
     (\<lambda>s. let access_token = response_json ''access_token'';
              session_id = hex urandom
          in (Inr (RedirectResponse (''http://localhost:8501?session_id='' @ session_id)),
              store_session session_id access_token s)))"

definition logout :: "string \<Rightarrow> json prog" where
  "logout session_id =
     (\<lambda>s. if user_sessions s session_id \<noteq> None
          then (Inr (JObject [(''status'', JString ''success''),
                              (''message'', JString ''Logged out successfully.'')]),
                s\<lparr>user_sessions := (user_sessions s)(session_id := None)\<rparr>)
          else (Inr (JObject [(''status'', JString ''error''),
                              (''message'', JString ''Session not found.'')]), s))"

definition get_user_repos :: "remote \<Rightarrow> string \<Rightarrow> json prog" where
  "get_user_repos R session_id =
     try_except
       (seq (get_github_client session_id) (\<lambda>client.
        seq (client_get_user R client) (\<lambda>u.
        seq (user_get_repos R u) (\<lambda>repos.
        ret (JObject [(''status'', JString ''success''),
                      (''repos'', JArray (map (\<lambda>repo. JString (full_name repo)) repos))])))))
       (\<lambda>e. ret (JObject [(''status'', JString ''error''), (''message'', JString (str_exn e))]))"

text \<open>\<open>try: m  except HTTPException as e: h e.status_code e.detail\<close>; any other exception passes.\<close>

definition try_except_HTTPException :: "'a prog \<Rightarrow> (nat \<Rightarrow> string \<Rightarrow> 'a prog) \<Rightarrow> 'a prog" where
  "try_except_HTTPException m h =
     (\<lambda>s. case m s of
            (Inl (HTTPException status_code detail), s') \<Rightarrow> h status_code detail s'
          | (Inl e, s') \<Rightarrow> (Inl e, s')
          | (Inr v, s') \<Rightarrow> (Inr v, s'))"

text \<open>
  \<open>run_agent\<close> builds and runs the language-model agent for a goal and a client; it is
  a parameter here. It may run tools, so it may change the process state.
\<close>

definition run_agent_endpoint ::
  "(string \<Rightarrow> github \<Rightarrow> json prog) \<Rightarrow> string \<Rightarrow> string \<Rightarrow> json prog" where
  "run_agent_endpoint run_agent session_id goal =
     try_except_HTTPException
       (seq (get_github_client session_id) (\<lambda>client.
        seq (run_agent goal client) (\<lambda>result.
        ret (JObject [(''status'', JString ''success''), (''result'', result)]))))
       (\<lambda>status_code detail.
        ret (JObject [(''status'', JString ''error''), (''message'', JString detail)]))"

text \<open>
  The status line the web framework sends for a handler's outcome: 200 for a returned
  dictionary, the exception's own status code for a raised \<open>HTTPException\<close>, 500 for
  any other exception.
\<close>

definition http_status :: "exn + json \<Rightarrow> nat" where
  "http_status outcome =
     (case outcome of
        Inr v \<Rightarrow> 200
      | Inl (HTTPException status_code detail) \<Rightarrow> status_code
      | Inl e \<Rightarrow> 500)"

section \<open>app.py\<close>

definition nl :: string where
  "nl = [CHR 0x0A]"

text \<open>The f-string of the debug task, line by line as the source has it.\<close>

definition debug_goal :: "int \<Rightarrow> string \<Rightarrow> string \<Rightarrow> string" where
  "debug_goal issue_number selected_repo user_guidance =
     nl @
     ''                You are an expert AI software developer. Your task is to debug and fix issue #'' @ str_int issue_number @ '' in the repo '' @ sq @ selected_repo @ sq @ ''.'' @ nl @
     ''                User guidance: '' @ sq @ (if user_guidance \<noteq> [] then user_guidance else ''None provided.'') @ sq @ nl @
     nl @
     ''                Follow these steps precisely:'' @ nl @
     ''                1. **Understand the Bug:** Use the `get_issue_details` tool for issue #'' @ str_int issue_number @ '' to understand the problem.'' @ nl @
     ''                2. **Create a Branch:** Create a new branch named exactly '' @ sq @ ''fix/issue-'' @ str_int issue_number @ sq @ ''.'' @ nl @
     ''                3. **Explore the Code:** Use `list_repository_files` to see the repository structure. Based on the issue details and user guidance, use `read_file` to examine the contents of the most relevant file(s).'' @ nl @
     ''                4. **Implement the Fix:** Once you have analyzed the code, use the `create_or_update_file` tool to apply the necessary code changes to the relevant file. The commit message for this change MUST be '' @ sq @ ''fix: Resolve issue #'' @ str_int issue_number @ sq @ ''.'' @ nl @
     ''                5. **Create a Pull Request:** After committing the fix, create a pull request to merge the '' @ sq @ ''fix/issue-'' @ str_int issue_number @ sq @ '' branch into the main branch. The title of the pull request MUST be '' @ sq @ ''Fix: Resolve issue #'' @ str_int issue_number @ sq @ ''.'' @ nl @
     ''                6. **Final Answer:** Your final answer must be a confirmation message stating that the pull request has been created, including the PR number and URL. If you fail at any step, provide a clear reason for the failure.'' @ nl @
     ''                ''"

text \<open>
  \<open>goal_to_run\<close> after the debug branch of the task form: it stays \<open>None\<close> unless an
  issue number and a repository are given.
\<close>

definition debug_task :: "int \<Rightarrow> string option \<Rightarrow> string \<Rightarrow> string option" where
  "debug_task issue_number selected_repo user_guidance =
     (if issue_number \<noteq> 0 \<and> truthy selected_repo
      then Some (debug_goal issue_number (str_opt selected_repo) user_guidance)
      else None)"

section \<open>Concrete inputs\<close>

text \<open>
  A process with no credential anywhere, one with a configured client, a platform that
  cannot be reached, and a platform hosting one repository with a README, an open
  issue 42 and a branch \<open>fix/issue-42\<close>.
\<close>

definition unconfigured :: process where
  "unconfigured = \<lparr>GITHUB_PAT = None, github_client = None, user_sessions = Map.empty, calls = []\<rparr>"

definition configured :: process where
  "configured = unconfigured\<lparr>github_client := Some (Github ''ghp_example'')\<rparr>"

definition refused :: exn where
  "refused = GithubException ''Connection refused''"

definition unreachable :: remote where
  "unreachable =
     \<lparr>get_user = (\<lambda>client. Inl refused),
      get_repos = (\<lambda>u. Inl refused),
      get_repo = (\<lambda>client repo_name. Inl refused),
      get_git_tree = (\<lambda>repo tree_sha recursive. Inl refused),
      get_contents = (\<lambda>repo file_path ref. Inl refused),
      update_file = (\<lambda>repo p message content blob_sha br. Inl refused),
      create_file = (\<lambda>repo p message content br. Inl refused),
      delete_file_remote = (\<lambda>repo p message blob_sha br. Inl refused),
      get_branch = (\<lambda>repo br. Inl refused),
      create_git_ref = (\<lambda>repo ref commit. Inl refused),
      create_pull = (\<lambda>repo title body head base. Inl refused),
      get_issue = (\<lambda>repo issue_number. Inl refused),
      post_access_token = (\<lambda>code. Inl refused)\<rparr>"

definition widgets :: repository where
  "widgets = \<lparr>full_name = ''acme/widgets'', default_branch = ''main''\<rparr>"

definition readme :: content_file where
  "readme = \<lparr>path_cf = ''README.md'', sha = ''3b18e512'', decoded_content = Inr ''Hello''\<rparr>"

definition not_found :: exn where
  "not_found = GithubException ''404 Not Found''"

definition forbidden :: exn where
  "forbidden = GithubException ''403 Forbidden''"

definition platform :: remote where
  "platform =
     \<lparr>get_user = (\<lambda>client. Inr (AuthenticatedUser client)),
      get_repos = (\<lambda>u. Inr [widgets]),
      get_repo = (\<lambda>client repo_name. if repo_name = ''acme/widgets'' then Inr widgets else Inl not_found),
      get_git_tree = (\<lambda>repo tree_sha recursive.
        Inr [\<lparr>path = ''README.md'', type = ''blob''\<rparr>,
             \<lparr>path = ''src'', type = ''tree''\<rparr>,
             \<lparr>path = ''src/main.py'', type = ''blob''\<rparr>]),
      get_contents = (\<lambda>repo file_path ref.
        if file_path = ''README.md'' then Inr (ContentFile readme) else Inl not_found),
      update_file = (\<lambda>repo p message content blob_sha br. Inr ()),
      create_file = (\<lambda>repo p message content br. Inr ()),
      delete_file_remote = (\<lambda>repo p message blob_sha br. Inr ()),
      get_branch = (\<lambda>repo br. Inr \<lparr>commit_sha = ''9fceb02d''\<rparr>),
      create_git_ref = (\<lambda>repo ref commit. Inr ()),
      create_pull = (\<lambda>repo title body head base.
        if head = ''fix/issue-42''
        then Inr \<lparr>number = 7, html_url = ''https://github.com/acme/widgets/pull/7''\<rparr>
        else Inl (GithubException ''422 Validation Failed'')),
      get_issue = (\<lambda>repo issue_number.
        if issue_number = 42 then Inr \<lparr>issue_title = ''Crash on start'', issue_body = None\<rparr>
        else Inl not_found),
      post_access_token = (\<lambda>code.
        if code = ''good'' then Inr [''access_token'' \<mapsto> ''gho_example'']
        else Inr [''error'' \<mapsto> ''bad_verification_code''])\<rparr>"

text \<open>The same platform for a token that may read but not write.\<close>

definition read_only :: remote where
  "read_only =
     platform\<lparr>update_file := (\<lambda>repo p message content blob_sha br. Inl forbidden),
              create_file := (\<lambda>repo p message content br. Inl forbidden)\<rparr>"

text \<open>
  The same platform when the file changes between the lookup and the write, so that
  the update is refused and a create goes through.
\<close>

definition conflicting :: remote where
  "conflicting =
     platform\<lparr>update_file :=
       (\<lambda>repo p message content blob_sha br. Inl (GithubException ''409 Conflict''))\<rparr>"

text \<open>
  A process whose environment holds a token that the platform no longer accepts, and
  the platform's answers to it.
\<close>

definition expired :: process where
  "expired = unconfigured\<lparr>GITHUB_PAT := Some ''ghp_expired''\<rparr>"

definition bad_credentials :: exn where
  "bad_credentials = GithubException ''401 Bad credentials''"

definition rejecting :: remote where
  "rejecting =
     unreachable\<lparr>get_user := (\<lambda>client. Inr (AuthenticatedUser client)),
                 get_repos := (\<lambda>u. Inl bad_credentials),
                 get_repo := (\<lambda>client repo_name. Inl bad_credentials)\<rparr>"

text \<open>A draw of 24 random bytes.\<close>

definition session_bytes :: "8 word list" where
  "session_bytes =
     [0x00, 0x9f, 0xa3, 0x5c, 0x11, 0xe2, 0x7b, 0x48,
      0xc0, 0x0d, 0x36, 0xff, 0x84, 0x29, 0x6a, 0xb1,
      0x5e, 0x73, 0x02, 0xd9, 0x90, 0xac, 0x17, 0xe8]"

section \<open>Evaluation lemmas\<close>

lemmas prog_defs = ret_def raise_def seq_def try_except_def remote_call_def

lemmas call_defs = client_get_user_def user_get_repos_def client_get_repo_def
  repo_get_git_tree_def repo_get_contents_def repo_update_file_def repo_create_file_def
  repo_delete_file_def repo_get_branch_def repo_create_git_ref_def repo_create_pull_def
  repo_get_issue_def

lemmas attr_defs = attr_path_def attr_sha_def attr_decoded_def

lemmas fixture_defs = unconfigured_def configured_def unreachable_def widgets_def readme_def
  platform_def read_only_def refused_def not_found_def forbidden_def conflicting_def
  expired_def bad_credentials_def rejecting_def

lemma try_seq_raises: "m s = (Inl e, s') \<Longrightarrow> try_except (seq m f) h s = h e s'"
  by (simp add: try_except_def seq_def)

lemma ensure_client_calls: "ensure_client s = (r, s1) \<Longrightarrow> calls s1 = calls s"
  by (auto simp: ensure_client_def init_client_from_env_def Let_def split: option.splits if_splits)

lemma ensure_client_unconfigured:
  "github_client s = None \<Longrightarrow> \<not> truthy (GITHUB_PAT s) \<Longrightarrow>
   ensure_client s = (Inl (RuntimeError not_configured), s)"
  by (simp add: ensure_client_def init_client_from_env_def truthy_def Let_def split: option.splits)

lemma ensure_client_present:
  "github_client s = Some client \<Longrightarrow> ensure_client s = (Inr client, s)"
  by (simp add: ensure_client_def)

lemma ensure_client_from_env:
  "github_client s = None \<Longrightarrow> GITHUB_PAT s = Some token \<Longrightarrow> token \<noteq> [] \<Longrightarrow>
   ensure_client s = (Inr (Github token), s\<lparr>github_client := Some (Github token)\<rparr>)"
  by (simp add: ensure_client_def init_client_from_env_def)

lemma ensure_client_configured:
  "ensure_client configured = (Inr (Github ''ghp_example''), configured)"
  by (simp add: ensure_client_def configured_def unconfigured_def)

lemma no_credential_unconfigured:
  "github_client unconfigured = None" "\<not> truthy (GITHUB_PAT unconfigured)"
  by (simp_all add: unconfigured_def truthy_def)

lemma comprehension_filter:
  "concat (map (\<lambda>x. if P x then [f x] else []) xs) = map f (filter P xs)"
  by (induction xs) simp_all

lemma sublist_skip: "sublist xs zs \<Longrightarrow> sublist xs (ys @ zs)"
  by (metis sublist_append)

lemma str_int_42: "str_int 42 = ''42''"
  by (simp add: str_int_def str_nat.simps)

subsection \<open>The process-wide client of the tool module\<close>

text \<open>
  The tool module's own store: after a non-empty token without a NUL character is set,
  the client check returns the client of that token; a token with a NUL character is
  refused and changes nothing; after \<open>None\<close> or the empty string is set the client
  check raises.
\<close>

lemma set_github_token_then_ensure:
  "token \<noteq> [] \<Longrightarrow> CHR 0x00 \<notin> set token \<Longrightarrow>
   fst (set_github_token (Some token) s) = Inr () \<and>
   fst (ensure_client (snd (set_github_token (Some token) s))) = Inr (Github token)"
  by (simp add: ensure_client_def set_github_token_def)

lemma set_github_token_nul:
  "token \<noteq> [] \<Longrightarrow> CHR 0x00 \<in> set token \<Longrightarrow>
   set_github_token (Some token) s = (Inl (ValueError ''embedded null byte''), s)"
  by (simp add: set_github_token_def)

lemma clear_github_token_then_ensure:
  "\<not> truthy token \<Longrightarrow>
   fst (set_github_token token s) = Inr () \<and>
   fst (ensure_client (snd (set_github_token token s))) = Inl (RuntimeError not_configured)"
  by (auto simp: ensure_client_def set_github_token_def init_client_from_env_def truthy_def
      split: option.splits)

section \<open>The write-file tool\<close>

text \<open>
  Where the one write the tool needs goes through, it does what its name says. With a
  configured client and a repository that resolves: when the lookup of the path raises
  (no file there) and the create call succeeds, the tool returns the created message
  after exactly one write, the create; when the lookup returns a file and the update
  call succeeds, it returns the updated message after exactly one write, the update;
  when the lookup raises and the create call is refused, it returns the error string
  of the create's exception.
\<close>

lemma create_or_update_file_one_write:
  assumes "ensure_client s = (Inr client, s1)"
    and "get_repo R client repo_name = Inr repo"
  shows
    "(get_contents R repo file_path (default_branch repo) = Inl e \<longrightarrow>
      create_file R repo file_path commit_message content (default_branch repo) = Inr () \<longrightarrow>
        fst (create_or_update_file R repo_name file_path content commit_message s) =
          Inr (''Successfully created file '' @ sq @ file_path @ sq @ ''.'') \<and>
        calls (snd (create_or_update_file R repo_name file_path content commit_message s)) =
          calls s @ [GetRepo client repo_name,
                     GetContents repo file_path (default_branch repo),
                     CreateFile repo file_path commit_message content (default_branch repo)]) \<and>
     (get_contents R repo file_path (default_branch repo) = Inr (ContentFile f) \<longrightarrow>
      update_file R repo (path_cf f) commit_message content (sha f) (default_branch repo) = Inr () \<longrightarrow>
        fst (create_or_update_file R repo_name file_path content commit_message s) =
          Inr (''Successfully updated file '' @ sq @ file_path @ sq @ ''.'') \<and>
        calls (snd (create_or_update_file R repo_name file_path content commit_message s)) =
          calls s @ [GetRepo client repo_name,
                     GetContents repo file_path (default_branch repo),
                     UpdateFile repo (path_cf f) commit_message content (sha f) (default_branch repo)]) \<and>
     (get_contents R repo file_path (default_branch repo) = Inl e \<longrightarrow>
      create_file R repo file_path commit_message content (default_branch repo) = Inl e' \<longrightarrow>
        fst (create_or_update_file R repo_name file_path content commit_message s) =
          Inr (''Error creating or updating file: '' @ str_exn e'))"
  using assms ensure_client_calls [OF assms(1)]
  by (simp add: create_or_update_file_def prog_defs call_defs attr_defs)

lemma create_or_update_file_one_write_examples:
  "ensure_client configured = (Inr (Github ''ghp_example''), configured) \<and>
   get_repo platform (Github ''ghp_example'') ''acme/widgets'' = Inr widgets \<and>
   get_contents platform widgets ''NOTES.md'' ''main'' = Inl not_found \<and>
   create_file platform widgets ''NOTES.md'' ''docs: add notes'' ''todo'' ''main'' = Inr () \<and>
   fst (create_or_update_file platform ''acme/widgets'' ''NOTES.md'' ''todo'' ''docs: add notes'' configured) =
     Inr (''Successfully created file '' @ sq @ ''NOTES.md'' @ sq @ ''.'') \<and>
   get_contents platform widgets ''README.md'' ''main'' = Inr (ContentFile readme) \<and>
   update_file platform widgets ''README.md'' ''docs: greet'' ''Hi'' ''3b18e512'' ''main'' = Inr () \<and>
   fst (create_or_update_file platform ''acme/widgets'' ''README.md'' ''Hi'' ''docs: greet'' configured) =
     Inr (''Successfully updated file '' @ sq @ ''README.md'' @ sq @ ''.'') \<and>
   calls (snd (create_or_update_file platform ''acme/widgets'' ''README.md'' ''Hi'' ''docs: greet'' configured)) =
     [GetRepo (Github ''ghp_example'') ''acme/widgets'', GetContents widgets ''README.md'' ''main'',
      UpdateFile widgets ''README.md'' ''docs: greet'' ''Hi'' ''3b18e512'' ''main''] \<and>
   get_contents read_only widgets ''NOTES.md'' ''main'' = Inl not_found \<and>
   create_file read_only widgets ''NOTES.md'' ''docs: add notes'' ''todo'' ''main'' = Inl forbidden \<and>
   fst (create_or_update_file read_only ''acme/widgets'' ''NOTES.md'' ''todo'' ''docs: add notes'' configured) =
     Inr (''Error creating or updating file: '' @ str_exn forbidden)"
proof -
  have c: "ensure_client configured = (Inr (Github ''ghp_example''), configured)"
    by (rule ensure_client_configured)
  have r: "get_repo platform (Github ''ghp_example'') ''acme/widgets'' = Inr widgets"
    by (simp add: platform_def)
  have r': "get_repo read_only (Github ''ghp_example'') ''acme/widgets'' = Inr widgets"
    by (simp add: platform_def read_only_def)
  have w: "default_branch widgets = ''main''" "path_cf readme = ''README.md''"
    "sha readme = ''3b18e512''"
    by (simp_all add: widgets_def readme_def)
  have a1: "get_contents platform widgets ''NOTES.md'' ''main'' = Inl not_found"
    and a2: "create_file platform widgets ''NOTES.md'' ''docs: add notes'' ''todo'' ''main'' = Inr ()"
    and a3: "get_contents platform widgets ''README.md'' ''main'' = Inr (ContentFile readme)"
    and a4: "update_file platform widgets ''README.md'' ''docs: greet'' ''Hi'' ''3b18e512'' ''main'' = Inr ()"
    and a5: "get_contents read_only widgets ''NOTES.md'' ''main'' = Inl not_found"
    and a6: "create_file read_only widgets ''NOTES.md'' ''docs: add notes'' ''todo'' ''main'' = Inl forbidden"
    by (simp_all add: platform_def read_only_def)
  have cs: "calls configured = []"
    by (simp add: configured_def unconfigured_def)
  note created = create_or_update_file_one_write
    [OF c r, of "''NOTES.md''" not_found "''docs: add notes''" "''todo''" readme forbidden]
  note updated = create_or_update_file_one_write
    [OF c r, of "''README.md''" not_found "''docs: greet''" "''Hi''" readme forbidden]
  note refused_write = create_or_update_file_one_write
    [OF c r', of "''NOTES.md''" not_found "''docs: add notes''" "''todo''" readme forbidden]
  show ?thesis
    using created updated refused_write by (simp add: c r w a1 a2 a3 a4 a5 a6 cs)
qed

text \<open>
  With a token that may not write and no file at the path, the tool answers with the
  error string of the refused create.
\<close>

lemma create_refused_error:
  "get_contents read_only widgets ''NOTES.md'' ''main'' = Inl not_found \<and>
   fst (create_or_update_file read_only ''acme/widgets'' ''NOTES.md'' ''todo'' ''docs: add notes'' configured) =
     Inr ''Error creating or updating file: 403 Forbidden'' \<and>
   fst (create_or_update_file read_only ''acme/widgets'' ''NOTES.md'' ''todo'' ''docs: add notes'' configured) \<noteq>
     Inr (''Successfully created file '' @ sq @ ''NOTES.md'' @ sq @ ''.'')"
  by (simp add: create_or_update_file_def prog_defs call_defs attr_defs ensure_client_def
      fixture_defs sq_def)

text \<open>
  The inner handler catches a failed update too: when the lookup finds a file and the
  update call raises, the create call is issued after it, in the same invocation.
\<close>

lemma update_refused_then_create:
  "ensure_client s = (Inr client, s1) \<Longrightarrow> get_repo R client repo_name = Inr repo \<Longrightarrow>
   get_contents R repo file_path (default_branch repo) = Inr (ContentFile f) \<Longrightarrow>
   update_file R repo (path_cf f) commit_message content (sha f) (default_branch repo) = Inl e \<Longrightarrow>
   calls (snd (create_or_update_file R repo_name file_path content commit_message s)) =
     calls s @ [GetRepo client repo_name,
                GetContents repo file_path (default_branch repo),
                UpdateFile repo (path_cf f) commit_message content (sha f) (default_branch repo),
                CreateFile repo file_path commit_message content (default_branch repo)]"
  using ensure_client_calls [of s "Inr client" s1]
  by (simp add: create_or_update_file_def prog_defs call_defs attr_defs split: sum.splits)

text \<open>
  C1 where the code departs from it. A file exists at the path and the update call is
  refused. The tool then issues the create call as well, so both writes fire in one
  invocation. When that create goes through, the tool reports that the existing file
  was created; nothing in the result shows that the update failed. When the create is
  refused too, the error string carries the create's exception, not the update's.
\<close>

theorem update_refused_reports_created:
  "get_contents conflicting widgets ''README.md'' ''main'' = Inr (ContentFile readme) \<and>
   update_file conflicting widgets ''README.md'' ''docs: greet'' ''Hi'' ''3b18e512'' ''main'' =
     Inl (GithubException ''409 Conflict'') \<and>
   fst (create_or_update_file conflicting ''acme/widgets'' ''README.md'' ''Hi'' ''docs: greet'' configured) =
     Inr (''Successfully created file '' @ sq @ ''README.md'' @ sq @ ''.'') \<and>
   fst (create_or_update_file conflicting ''acme/widgets'' ''README.md'' ''Hi'' ''docs: greet'' configured) \<noteq>
     Inr (''Successfully updated file '' @ sq @ ''README.md'' @ sq @ ''.'') \<and>
   calls (snd (create_or_update_file conflicting ''acme/widgets'' ''README.md'' ''Hi'' ''docs: greet''
                 configured)) =
     [GetRepo (Github ''ghp_example'') ''acme/widgets'',
      GetContents widgets ''README.md'' ''main'',
      UpdateFile widgets ''README.md'' ''docs: greet'' ''Hi'' ''3b18e512'' ''main'',
      CreateFile widgets ''README.md'' ''docs: greet'' ''Hi'' ''main''] \<and>
   get_contents read_only widgets ''README.md'' ''main'' = Inr (ContentFile readme) \<and>
   fst (create_or_update_file read_only ''acme/widgets'' ''README.md'' ''Hi'' ''docs: greet'' configured) =
     Inr ''Error creating or updating file: 403 Forbidden'' \<and>
   calls (snd (create_or_update_file read_only ''acme/widgets'' ''README.md'' ''Hi'' ''docs: greet''
                 configured)) =
     [GetRepo (Github ''ghp_example'') ''acme/widgets'',
      GetContents widgets ''README.md'' ''main'',
      UpdateFile widgets ''README.md'' ''docs: greet'' ''Hi'' ''3b18e512'' ''main'',
      CreateFile widgets ''README.md'' ''docs: greet'' ''Hi'' ''main'']"
  by (simp add: create_or_update_file_def prog_defs call_defs attr_defs ensure_client_def
      fixture_defs sq_def)

section \<open>The list-files tool\<close>

text \<open>
  What the code returns: on success the paths of the blob entries, in tree order, joined
  by the separator the source writes; and it always returns a string.
\<close>

lemma list_repository_files_listing:
  "ensure_client s = (Inr client, s1) \<Longrightarrow> get_repo R client repo_name = Inr repo \<Longrightarrow>
   get_git_tree R repo (default_branch repo) True = Inr tree \<Longrightarrow>
   fst (list_repository_files R repo_name s) =
     Inr (join files_separator (map path (filter (\<lambda>element. type element = ''blob'') tree)))"
  by (simp add: list_repository_files_def prog_defs call_defs comprehension_filter)

lemma list_repository_files_returns:
  "\<exists>text. fst (list_repository_files R repo_name s) = Inr text"
  by (auto simp: list_repository_files_def prog_defs call_defs split: prod.splits sum.splits)

lemma list_repository_files_error:
  "ensure_client s = (Inr client, s1) \<Longrightarrow> get_repo R client repo_name = Inl e \<Longrightarrow>
   fst (list_repository_files R repo_name s) = Inr (''Error listing files: '' @ str_exn e)"
  by (simp add: list_repository_files_def prog_defs call_defs)

text \<open>
  C2 at a tree with two blobs and one directory: the two blob paths come back in tree
  order and the directory is left out, but between them stand a backslash and the
  letter n, not a newline character.
\<close>

theorem list_repository_files_backslash_n:
  "fst (list_repository_files platform ''acme/widgets'' configured) =
     Inr (''README.md'' @ [CHR 0x5C, CHR ''n''] @ ''src/main.py'') \<and>
   fst (list_repository_files platform ''acme/widgets'' configured) \<noteq>
     Inr (''README.md'' @ [CHR 0x0A] @ ''src/main.py'')"
  by (simp add: list_repository_files_def prog_defs call_defs ensure_client_def
      fixture_defs files_separator_def)

section \<open>The credential store of the API\<close>

text \<open>
  C3 (as the code has it). For every session id with no entry in the store, resolving
  the credential fails with the Unauthenticated error and leaves the state as it was;
  after a non-empty token is stored for an id, resolving that id yields the client of
  exactly that token; after \<open>None\<close> is stored, resolving fails with Unauthenticated
  again, and so it does after the empty string is stored.
\<close>

theorem credential_store_contract:
  "(user_sessions s session_id = None \<longrightarrow>
      get_github_client session_id s = (Inl (HTTPException 401 ''User not authenticated.''), s)) \<and>
   (token \<noteq> [] \<longrightarrow>
      fst (get_github_client session_id (store_session session_id (Some token) s)) =
        Inr (Github token)) \<and>
   fst (get_github_client session_id (store_session session_id None s)) =
     Inl (HTTPException 401 ''User not authenticated.'') \<and>
   fst (get_github_client session_id (store_session session_id (Some []) s)) =
     Inl (HTTPException 401 ''User not authenticated.'')"
  by (simp add: get_github_client_def store_session_def dict_get_def)

theorem credential_store_contract_witness:
  "user_sessions unconfigured ''abc'' = None \<and>
   get_github_client ''abc'' unconfigured =
     (Inl (HTTPException 401 ''User not authenticated.''), unconfigured) \<and>
   ''gho_example'' \<noteq> [] \<and>
   fst (get_github_client ''abc'' (store_session ''abc'' (Some ''gho_example'') unconfigured)) =
     Inr (Github ''gho_example'') \<and>
   fst (get_github_client ''abc'' (store_session ''abc'' None unconfigured)) =
     Inl (HTTPException 401 ''User not authenticated.'')"
  using credential_store_contract [of unconfigured "''abc''" "''gho_example''"]
  by (simp add: unconfigured_def)

text \<open>
  C3 as stated fails for the empty string: stored as the token of an id, it is not
  what resolving the id yields; resolving fails.
\<close>

theorem empty_token_counterexample:
  "fst (get_github_client ''abc'' (store_session ''abc'' (Some '''') unconfigured)) =
     Inl (HTTPException 401 ''User not authenticated.'') \<and>
   fst (get_github_client ''abc'' (store_session ''abc'' (Some '''') unconfigured)) \<noteq>
     Inr (Github '''')"
  by (simp add: get_github_client_def store_session_def dict_get_def unconfigured_def)

section \<open>Unauthenticated requests\<close>

text \<open>
  C4 (as the code has it). For every request whose session id has no stored credential
  (no entry, \<open>None\<close> or the empty string), both POST /run-agent and POST /user/repos
  return at once, with the process state untouched (no remote call, no agent run), a
  dictionary whose status is "error" and whose message reports the failure; the
  handler returns normally, so the response status is 200. The status code 401 is
  carried only by the exception that the credential lookup raises and the handlers
  catch.
\<close>

theorem unauthenticated_structured_failure:
  assumes "\<not> truthy (dict_get (user_sessions s) session_id)"
  shows "run_agent_endpoint run_agent session_id goal s =
           (Inr (JObject [(''status'', JString ''error''),
                          (''message'', JString ''User not authenticated.'')]), s) \<and>
         get_user_repos R session_id s =
           (Inr (JObject [(''status'', JString ''error''),
                          (''message'',
                           JString (str_exn (HTTPException 401 ''User not authenticated.'')))]), s) \<and>
         http_status (fst (run_agent_endpoint run_agent session_id goal s)) = 200 \<and>
         http_status (fst (get_user_repos R session_id s)) = 200 \<and>
         fst (get_github_client session_id s) = Inl (HTTPException 401 ''User not authenticated.'')"
  using assms
  by (auto simp: run_agent_endpoint_def get_user_repos_def try_except_HTTPException_def
      get_github_client_def truthy_def http_status_def prog_defs split: option.splits)

theorem unauthenticated_structured_failure_witness:
  "\<not> truthy (dict_get (user_sessions unconfigured) ''abc'') \<and>
   run_agent_endpoint (\<lambda>goal client. ret (JObject [])) ''abc'' ''list files'' unconfigured =
     (Inr (JObject [(''status'', JString ''error''),
                    (''message'', JString ''User not authenticated.'')]), unconfigured) \<and>
   get_user_repos platform ''abc'' unconfigured =
     (Inr (JObject [(''status'', JString ''error''),
                    (''message'', JString ''401: User not authenticated.'')]), unconfigured)"
  using unauthenticated_structured_failure
    [of unconfigured "''abc''" "\<lambda>goal client. ret (JObject [])" "''list files''" platform]
  by (simp add: unconfigured_def truthy_def dict_get_def str_nat.simps)

text \<open>
  C4 as stated fails: for a session id that was never stored, both endpoints answer
  with status 200, not 401.
\<close>

theorem unauthenticated_status_counterexample:
  "http_status
     (fst (run_agent_endpoint (\<lambda>goal client. ret (JObject [])) ''abc'' ''list files'' unconfigured)) = 200 \<and>
   http_status (fst (get_user_repos platform ''abc'' unconfigured)) = 200 \<and>
   http_status
     (fst (run_agent_endpoint (\<lambda>goal client. ret (JObject [])) ''abc'' ''list files'' unconfigured)) \<noteq> 401 \<and>
   http_status (fst (get_user_repos platform ''abc'' unconfigured)) \<noteq> 401"
  by (simp add: run_agent_endpoint_def get_user_repos_def try_except_HTTPException_def
      get_github_client_def dict_get_def http_status_def prog_defs unconfigured_def)

section \<open>Tools without a credential\<close>

text \<open>
  C5 (as the code has it). When no credential is configured (the client is unset and
  \<open>GITHUB_PAT\<close> is unset or empty), every tool invocation fails with the
  authentication error of the client check: it returns its error string carrying the
  message of the raised \<open>RuntimeError\<close>, and the process state, the log of remote
  calls included, is exactly what it was. So no remote call is issued without a
  credential. The client check looks only at whether a credential is there.
\<close>

theorem tools_need_credential:
  assumes "github_client s = None" and "\<not> truthy (GITHUB_PAT s)"
  shows
    "list_my_repositories R s = (Inr [''Error listing repositories: '' @ not_configured], s) \<and>
     list_repository_files R repo_name s = (Inr (''Error listing files: '' @ not_configured), s) \<and>
     read_file R repo_name file_path s = (Inr (''Error reading file: '' @ not_configured), s) \<and>
     create_or_update_file R repo_name file_path content commit_message s =
       (Inr (''Error creating or updating file: '' @ not_configured), s) \<and>
     delete_file R repo_name file_path commit_message s =
       (Inr (''Error deleting file: '' @ not_configured), s) \<and>
     create_branch R repo_name branch_name s = (Inr (''Error creating branch: '' @ not_configured), s) \<and>
     create_pull_request R repo_name title body head_branch s =
       (Inr (''Error creating pull request: '' @ not_configured), s) \<and>
     get_issue_details R repo_name issue_number s =
       (Inr (''Error getting issue details: '' @ not_configured), s)"
proof -
  have e: "ensure_client s = (Inl (RuntimeError not_configured), s)"
    using assms by (rule ensure_client_unconfigured)
  show ?thesis
    unfolding list_my_repositories_def list_repository_files_def read_file_def
      create_or_update_file_def delete_file_def create_branch_def create_pull_request_def
      get_issue_details_def
    by (simp add: try_seq_raises [where m = ensure_client, OF e] ret_def)
qed

theorem tools_need_credential_witness:
  "github_client unconfigured = None \<and> \<not> truthy (GITHUB_PAT unconfigured) \<and>
   list_my_repositories platform unconfigured =
     (Inr [''Error listing repositories: GitHub token not configured. Please set a token to continue.''],
      unconfigured) \<and>
   read_file platform ''acme/widgets'' ''README.md'' unconfigured =
     (Inr ''Error reading file: GitHub token not configured. Please set a token to continue.'',
      unconfigured) \<and>
   calls (snd (delete_file platform ''acme/widgets'' ''README.md'' ''chore: drop readme'' unconfigured)) = []"
  using no_credential_unconfigured
    tools_need_credential [OF no_credential_unconfigured, of platform "''acme/widgets''"
      "''README.md''" "''Hi''" "''chore: drop readme''" "''fix/issue-42''" "''Fix''" "''Body''"
      "''fix/issue-42''" 42]
  by (simp add: not_configured_def) (simp add: unconfigured_def)

text \<open>
  C5 as stated fails for a credential that is configured but not valid: the client
  check builds a client from the token in the environment, the remote calls are
  issued, and the failure the tool reports is the platform's, not the client check's.
\<close>

theorem invalid_credential_counterexample:
  "fst (ensure_client expired) = Inr (Github ''ghp_expired'') \<and>
   fst (list_my_repositories rejecting expired) =
     Inr [''Error listing repositories: 401 Bad credentials''] \<and>
   calls (snd (list_my_repositories rejecting expired)) =
     [GetUser (Github ''ghp_expired''), GetRepos (AuthenticatedUser (Github ''ghp_expired''))] \<and>
   fst (read_file rejecting ''acme/widgets'' ''README.md'' expired) =
     Inr ''Error reading file: 401 Bad credentials'' \<and>
   calls (snd (read_file rejecting ''acme/widgets'' ''README.md'' expired)) =
     [GetRepo (Github ''ghp_expired'') ''acme/widgets''] \<and>
   calls (snd (read_file rejecting ''acme/widgets'' ''README.md'' expired)) \<noteq> calls expired"
  by (simp add: list_my_repositories_def read_file_def prog_defs call_defs ensure_client_def
      init_client_from_env_def fixture_defs)

section \<open>The list-repositories tool\<close>

text \<open>
  C6. The list-repositories tool never raises: it always returns a list. When the
  listing succeeds it returns the full names of the repositories in the order the
  platform lists them. When a remote call raises (fetching the user, or listing the
  repositories), it returns a one-element list whose element is "Error listing
  repositories: " followed by the exception's text, which starts with "Error".
\<close>

theorem list_my_repositories_fails_open:
  "(\<exists>names. fst (list_my_repositories R s) = Inr names) \<and>
   (ensure_client s = (Inr client, s1) \<longrightarrow> get_user R client = Inr u \<longrightarrow>
    get_repos R u = Inr repos \<longrightarrow>
      fst (list_my_repositories R s) = Inr (map full_name repos)) \<and>
   (ensure_client s = (Inr client, s1) \<longrightarrow> get_user R client = Inl e \<longrightarrow>
      fst (list_my_repositories R s) = Inr [''Error listing repositories: '' @ str_exn e]) \<and>
   (ensure_client s = (Inr client, s1) \<longrightarrow> get_user R client = Inr u \<longrightarrow>
    get_repos R u = Inl e \<longrightarrow>
      fst (list_my_repositories R s) = Inr [''Error listing repositories: '' @ str_exn e]) \<and>
   prefix ''Error'' (''Error listing repositories: '' @ str_exn e)"
  by (auto simp: list_my_repositories_def prog_defs call_defs split: prod.splits sum.splits)

theorem list_my_repositories_fails_open_witness:
  "ensure_client configured = (Inr (Github ''ghp_example''), configured) \<and>
   get_user platform (Github ''ghp_example'') = Inr (AuthenticatedUser (Github ''ghp_example'')) \<and>
   get_repos platform (AuthenticatedUser (Github ''ghp_example'')) = Inr [widgets] \<and>
   fst (list_my_repositories platform configured) = Inr [''acme/widgets''] \<and>
   get_user unreachable (Github ''ghp_example'') = Inl refused \<and>
   fst (list_my_repositories unreachable configured) =
     Inr [''Error listing repositories: Connection refused''] \<and>
   get_user (platform\<lparr>get_repos := \<lambda>u. Inl refused\<rparr>) (Github ''ghp_example'') =
     Inr (AuthenticatedUser (Github ''ghp_example'')) \<and>
   get_repos (platform\<lparr>get_repos := \<lambda>u. Inl refused\<rparr>) (AuthenticatedUser (Github ''ghp_example'')) =
     Inl refused \<and>
   fst (list_my_repositories (platform\<lparr>get_repos := \<lambda>u. Inl refused\<rparr>) configured) =
     Inr [''Error listing repositories: Connection refused'']"
proof -
  note c = ensure_client_configured
  have p: "get_user platform (Github ''ghp_example'') = Inr (AuthenticatedUser (Github ''ghp_example''))"
    "get_repos platform (AuthenticatedUser (Github ''ghp_example'')) = Inr [widgets]"
    "get_user unreachable (Github ''ghp_example'') = Inl refused"
    "get_user (platform\<lparr>get_repos := \<lambda>u. Inl refused\<rparr>) (Github ''ghp_example'') =
       Inr (AuthenticatedUser (Github ''ghp_example''))"
    "get_repos (platform\<lparr>get_repos := \<lambda>u. Inl refused\<rparr>) (AuthenticatedUser (Github ''ghp_example'')) =
       Inl refused"
    by (simp_all add: platform_def unreachable_def)
  have n: "full_name widgets = ''acme/widgets''" "str_exn refused = ''Connection refused''"
    by (simp_all add: widgets_def refused_def)
  note listed = list_my_repositories_fails_open
    [of platform configured "Github ''ghp_example''" configured
      "AuthenticatedUser (Github ''ghp_example'')" "[widgets]" refused]
  note down = list_my_repositories_fails_open
    [of unreachable configured "Github ''ghp_example''" configured
      "AuthenticatedUser (Github ''ghp_example'')" "[widgets]" refused]
  note broken = list_my_repositories_fails_open
    [of "platform\<lparr>get_repos := \<lambda>u. Inl refused\<rparr>" configured "Github ''ghp_example''" configured
      "AuthenticatedUser (Github ''ghp_example'')" "[widgets]" refused]
  show ?thesis
    using listed down broken by (simp add: c p n)
qed

section \<open>The create-pull-request tool\<close>

text \<open>
  C7. The create-pull-request tool never raises: it always returns a string. On success
  the string is "Successfully created Pull Request #" with the decimal number of the
  pull request, ": " and its URL, so it contains both. On any failure (no client, the
  repository lookup raising, or the pull request call raising, as it does for a head
  branch that does not exist) the string is "Error creating pull request: " followed
  by the exception's text.
\<close>

theorem create_pull_request_result:
  "(\<exists>msg. fst (create_pull_request R repo_name title body head_branch s) = Inr msg) \<and>
   (ensure_client s = (Inr client, s1) \<longrightarrow> get_repo R client repo_name = Inr repo \<longrightarrow>
    create_pull R repo title body head_branch (default_branch repo) = Inr pr \<longrightarrow>
      fst (create_pull_request R repo_name title body head_branch s) =
        Inr (''Successfully created Pull Request #'' @ str_int (number pr) @ '': '' @ html_url pr)) \<and>
   sublist (str_int (number pr))
     (''Successfully created Pull Request #'' @ str_int (number pr) @ '': '' @ html_url pr) \<and>
   sublist (html_url pr)
     (''Successfully created Pull Request #'' @ str_int (number pr) @ '': '' @ html_url pr) \<and>
   (ensure_client s = (Inl e, s1) \<longrightarrow>
      fst (create_pull_request R repo_name title body head_branch s) =
        Inr (''Error creating pull request: '' @ str_exn e)) \<and>
   (ensure_client s = (Inr client, s1) \<longrightarrow> get_repo R client repo_name = Inl e \<longrightarrow>
      fst (create_pull_request R repo_name title body head_branch s) =
        Inr (''Error creating pull request: '' @ str_exn e)) \<and>
   (ensure_client s = (Inr client, s1) \<longrightarrow> get_repo R client repo_name = Inr repo \<longrightarrow>
    create_pull R repo title body head_branch (default_branch repo) = Inl e \<longrightarrow>
      fst (create_pull_request R repo_name title body head_branch s) =
        Inr (''Error creating pull request: '' @ str_exn e)) \<and>
   prefix ''Error creating pull request:'' (''Error creating pull request: '' @ str_exn e)"
proof -
  have "sublist (html_url pr)
     ((''Successfully created Pull Request #'' @ str_int (number pr) @ '': '') @ html_url pr)"
    by (rule sublist_append_leftI)
  moreover have "sublist (str_int (number pr))
     (''Successfully created Pull Request #'' @ str_int (number pr) @ '': '' @ html_url pr)"
    by (rule sublist_appendI)
  ultimately show ?thesis
    by (auto simp: create_pull_request_def prog_defs call_defs split: prod.splits sum.splits)
qed

theorem create_pull_request_result_witness:
  "ensure_client configured = (Inr (Github ''ghp_example''), configured) \<and>
   get_repo platform (Github ''ghp_example'') ''acme/widgets'' = Inr widgets \<and>
   create_pull platform widgets ''Fix: Resolve issue #42'' ''Closes #42'' ''fix/issue-42'' ''main'' =
     Inr \<lparr>number = 7, html_url = ''https://github.com/acme/widgets/pull/7''\<rparr> \<and>
   fst (create_pull_request platform ''acme/widgets'' ''Fix: Resolve issue #42'' ''Closes #42''
          ''fix/issue-42'' configured) =
     Inr ''Successfully created Pull Request #7: https://github.com/acme/widgets/pull/7'' \<and>
   create_pull platform widgets ''Fix: Resolve issue #42'' ''Closes #42'' ''fix/issue-43'' ''main'' =
     Inl (GithubException ''422 Validation Failed'') \<and>
   fst (create_pull_request platform ''acme/widgets'' ''Fix: Resolve issue #42'' ''Closes #42''
          ''fix/issue-43'' configured) =
     Inr ''Error creating pull request: 422 Validation Failed'' \<and>
   get_repo platform (Github ''ghp_example'') ''acme/gadgets'' = Inl not_found \<and>
   fst (create_pull_request platform ''acme/gadgets'' ''Fix: Resolve issue #42'' ''Closes #42''
          ''fix/issue-42'' configured) =
     Inr ''Error creating pull request: 404 Not Found'' \<and>
   ensure_client unconfigured = (Inl (RuntimeError not_configured), unconfigured) \<and>
   fst (create_pull_request platform ''acme/widgets'' ''Fix: Resolve issue #42'' ''Closes #42''
          ''fix/issue-42'' unconfigured) =
     Inr (''Error creating pull request: '' @ not_configured)"
proof -
  note c = ensure_client_configured
  note u = ensure_client_unconfigured [OF no_credential_unconfigured]
  have p: "get_repo platform (Github ''ghp_example'') ''acme/widgets'' = Inr widgets"
    "get_repo platform (Github ''ghp_example'') ''acme/gadgets'' = Inl not_found"
    "create_pull platform widgets ''Fix: Resolve issue #42'' ''Closes #42'' ''fix/issue-42'' ''main'' =
       Inr \<lparr>number = 7, html_url = ''https://github.com/acme/widgets/pull/7''\<rparr>"
    "create_pull platform widgets ''Fix: Resolve issue #42'' ''Closes #42'' ''fix/issue-43'' ''main'' =
       Inl (GithubException ''422 Validation Failed'')"
    "default_branch widgets = ''main''"
    by (simp_all add: platform_def widgets_def)
  have n: "str_int 7 = ''7''" "str_exn not_found = ''404 Not Found''"
    by (simp_all add: str_int_def str_nat.simps not_found_def)
  note opened = create_pull_request_result
    [of platform "''acme/widgets''" "''Fix: Resolve issue #42''" "''Closes #42''" "''fix/issue-42''"
      configured "Github ''ghp_example''" configured widgets
      "\<lparr>number = 7, html_url = ''https://github.com/acme/widgets/pull/7''\<rparr>" not_found]
  note no_branch = create_pull_request_result
    [of platform "''acme/widgets''" "''Fix: Resolve issue #42''" "''Closes #42''" "''fix/issue-43''"
      configured "Github ''ghp_example''" configured widgets
      "\<lparr>number = 7, html_url = ''https://github.com/acme/widgets/pull/7''\<rparr>"
      "GithubException ''422 Validation Failed''"]
  note no_repo = create_pull_request_result
    [of platform "''acme/gadgets''" "''Fix: Resolve issue #42''" "''Closes #42''" "''fix/issue-42''"
      configured "Github ''ghp_example''" configured widgets
      "\<lparr>number = 7, html_url = ''https://github.com/acme/widgets/pull/7''\<rparr>" not_found]
  note no_client = create_pull_request_result
    [of platform "''acme/widgets''" "''Fix: Resolve issue #42''" "''Closes #42''" "''fix/issue-42''"
      unconfigured "Github ''ghp_example''" unconfigured widgets
      "\<lparr>number = 7, html_url = ''https://github.com/acme/widgets/pull/7''\<rparr>"
      "RuntimeError not_configured"]
  show ?thesis
    using opened no_branch no_repo no_client by (simp add: c u p n)
qed

section \<open>The debug task's goal\<close>

lemma debug_goal_issue: "sublist ''issue #42'' (debug_goal 42 selected_repo user_guidance)"
  unfolding debug_goal_def str_int_42
  by (rule sublist_skip) (simp add: sublist_Cons_right)

lemma debug_goal_branch: "sublist ''fix/issue-42'' (debug_goal 42 selected_repo user_guidance)"
  unfolding debug_goal_def str_int_42
  by ((rule prefix_imp_sublist, (simp; fail)) | rule sublist_skip)+

lemma debug_goal_commit:
  "sublist ''fix: Resolve issue #42'' (debug_goal 42 selected_repo user_guidance)"
  unfolding debug_goal_def str_int_42
  by ((rule prefix_imp_sublist, (simp; fail)) | rule sublist_skip)+

text \<open>
  C8. For the debug task with issue number 42, a selected repository and no user
  guidance (the empty text), a goal string is generated and it contains the literal
  substrings "issue #42", "fix/issue-42" and "fix: Resolve issue #42".
\<close>

theorem debug_task_issue_42:
  assumes "truthy selected_repo"
  shows "\<exists>goal. debug_task 42 selected_repo [] = Some goal \<and>
           sublist ''issue #42'' goal \<and>
           sublist ''fix/issue-42'' goal \<and>
           sublist ''fix: Resolve issue #42'' goal"
  using assms debug_goal_issue debug_goal_branch debug_goal_commit
  by (simp add: debug_task_def)

theorem debug_task_issue_42_witness:
  "truthy (Some ''acme/widgets'') \<and>
   (\<exists>goal. debug_task 42 (Some ''acme/widgets'') [] = Some goal \<and>
           sublist ''issue #42'' goal \<and>
           sublist ''fix/issue-42'' goal \<and>
           sublist ''fix: Resolve issue #42'' goal)"
proof -
  have t: "truthy (Some ''acme/widgets'')"
    by (simp add: truthy_def)
  show ?thesis
    using t debug_task_issue_42 [OF t] by simp
qed

section \<open>The OAuth callback\<close>

text \<open>
  The other outcomes of the exchange: when it raises, the callback raises and stores
  nothing; when it returns a non-empty access token, the stored session resolves to
  the client of that token.
\<close>

lemma github_callback_exchange_raises:
  "post_access_token R code = Inl e \<Longrightarrow>
   fst (github_callback R urandom code s) = Inl e \<and>
   user_sessions (snd (github_callback R urandom code s)) = user_sessions s"
  by (simp add: github_callback_def prog_defs)

lemma github_callback_then_resolve:
  "post_access_token R code = Inr response_json \<Longrightarrow>
   response_json ''access_token'' = Some token \<Longrightarrow> token \<noteq> [] \<Longrightarrow>
   fst (get_github_client (hex urandom) (snd (github_callback R urandom code s))) =
     Inr (Github token)"
  by (simp add: github_callback_def store_session_def get_github_client_def dict_get_def
      prog_defs Let_def)

text \<open>
  C9. When the token exchange answers with a JSON object that has no access token, the
  callback still redirects with the session id drawn at random and stores an entry for
  that id, whose value is \<open>None\<close>; resolving that session afterwards fails with the
  Unauthenticated error, so the failed exchange gives no usable session.
\<close>

theorem failed_exchange_session_unusable:
  assumes "post_access_token R code = Inr response_json"
    and "response_json ''access_token'' = None"
  shows "fst (github_callback R urandom code s) =
           Inr (RedirectResponse (''http://localhost:8501?session_id='' @ hex urandom)) \<and>
         user_sessions (snd (github_callback R urandom code s)) (hex urandom) = Some None \<and>
         fst (get_github_client (hex urandom) (snd (github_callback R urandom code s))) =
           Inl (HTTPException 401 ''User not authenticated.'')"
  using assms
  by (simp add: github_callback_def store_session_def get_github_client_def dict_get_def
      prog_defs Let_def)

theorem failed_exchange_session_unusable_witness:
  "post_access_token platform ''expired'' = Inr [''error'' \<mapsto> ''bad_verification_code''] \<and>
   [''error'' \<mapsto> ''bad_verification_code''] ''access_token'' = None \<and>
   hex session_bytes = ''009fa35c11e27b48c00d36ff84296ab15e7302d990ac17e8'' \<and>
   fst (github_callback platform session_bytes ''expired'' unconfigured) =
     Inr (RedirectResponse ''http://localhost:8501?session_id=009fa35c11e27b48c00d36ff84296ab15e7302d990ac17e8'') \<and>
   user_sessions (snd (github_callback platform session_bytes ''expired'' unconfigured))
     ''009fa35c11e27b48c00d36ff84296ab15e7302d990ac17e8'' = Some None \<and>
   fst (get_github_client ''009fa35c11e27b48c00d36ff84296ab15e7302d990ac17e8''
          (snd (github_callback platform session_bytes ''expired'' unconfigured))) =
     Inl (HTTPException 401 ''User not authenticated.'')"
proof -
  have p: "post_access_token platform ''expired'' = Inr [''error'' \<mapsto> ''bad_verification_code'']"
    by (simp add: platform_def)
  have n: "[''error'' \<mapsto> ''bad_verification_code''] ''access_token'' = None"
    by simp
  have h: "hex session_bytes = ''009fa35c11e27b48c00d36ff84296ab15e7302d990ac17e8''"
    by (simp add: hex_def session_bytes_def)
  show ?thesis
    using failed_exchange_session_unusable [OF p n, of session_bytes unconfigured]
    by (simp add: p h)
qed

section \<open>Logout\<close>

text \<open>
  C10. For every state of the session store: when the session id is a key of the store,
  logout returns status "success", removes the entry of that id and changes nothing
  else, so every other session's entry is as before; when the id is not a key, logout
  returns status "error" and the whole state is unchanged.
\<close>

theorem logout_frame:
  "(user_sessions s session_id \<noteq> None \<longrightarrow>
      fst (logout session_id s) =
        Inr (JObject [(''status'', JString ''success''),
                      (''message'', JString ''Logged out successfully.'')]) \<and>
      snd (logout session_id s) = s\<lparr>user_sessions := (user_sessions s)(session_id := None)\<rparr> \<and>
      user_sessions (snd (logout session_id s)) session_id = None \<and>
      (\<forall>other. other \<noteq> session_id \<longrightarrow>
         user_sessions (snd (logout session_id s)) other = user_sessions s other)) \<and>
   (user_sessions s session_id = None \<longrightarrow>
      logout session_id s =
        (Inr (JObject [(''status'', JString ''error''),
                       (''message'', JString ''Session not found.'')]), s))"
  by (simp add: logout_def)

theorem logout_frame_witness:
  "user_sessions (store_session ''abc'' (Some ''gho_example'') (store_session ''xyz'' None unconfigured))
     ''abc'' \<noteq> None \<and>
   fst (logout ''abc'' (store_session ''abc'' (Some ''gho_example'') (store_session ''xyz'' None unconfigured))) =
     Inr (JObject [(''status'', JString ''success''),
                   (''message'', JString ''Logged out successfully.'')]) \<and>
   user_sessions
     (snd (logout ''abc'' (store_session ''abc'' (Some ''gho_example'') (store_session ''xyz'' None unconfigured))))
     ''abc'' = None \<and>
   user_sessions
     (snd (logout ''abc'' (store_session ''abc'' (Some ''gho_example'') (store_session ''xyz'' None unconfigured))))
     ''xyz'' = Some None \<and>
   user_sessions (store_session ''xyz'' None unconfigured) ''abc'' = None \<and>
   logout ''abc'' (store_session ''xyz'' None unconfigured) =
     (Inr (JObject [(''status'', JString ''error''),
                    (''message'', JString ''Session not found.'')]),
      store_session ''xyz'' None unconfigured)"
  using
    logout_frame [of "store_session ''abc'' (Some ''gho_example'') (store_session ''xyz'' None unconfigured)"
      "''abc''"]
    logout_frame [of "store_session ''xyz'' None unconfigured" "''abc''"]
  by (simp add: store_session_def unconfigured_def)

end
